theory Spec2Isabelle
  imports Main
begin

section \<open>The sycl-aspect-filter tool\<close>

text \<open>
  A shallow embedding of \<^verbatim>\<open>llvm/tools/sycl-aspect-filter/sycl-aspect-filter.cpp\<close>.
  Strings and file contents are \<^typ>\<open>string\<close> (lists of bytes). The function
  \<^verbatim>\<open>filterTable\<close> and \<^verbatim>\<open>main\<close> are translated from the source; the classes of
  LLVM's support library they call (\<^verbatim>\<open>StringRef\<close>, \<^verbatim>\<open>line_iterator\<close>,
  \<^verbatim>\<open>sys::path\<close>, \<^verbatim>\<open>util::SimpleTable\<close>) are not part of the tool's source file and
  are modelled in the sections below, each marked as such.
\<close>

subsection \<open>Outcomes\<close>

text \<open>
  \<^verbatim>\<open>error(Message)\<close> prints \<^verbatim>\<open>sycl-aspect-filter: Message\<close> on the error stream and
  calls \<^verbatim>\<open>exit(1)\<close>: it is the value \<open>Fatal Message\<close>. \<open>Undefined\<close> stands for an
  operation the source performs without a check and whose behaviour C++ leaves open
  (advancing a line iterator past its end, using a buffer that could not be read).
  A computation that never returns is \<open>None\<close> in the option type around the result.
\<close>

datatype failure = Fatal string | Undefined

subsection \<open>\<^verbatim>\<open>StringRef\<close>\<close>

abbreviation LF :: char where "LF \<equiv> CHR 0x0A"
abbreviation CR :: char where "CR \<equiv> CHR 0x0D"
abbreviation NUL :: char where "NUL \<equiv> CHR 0x00"

text \<open>\<^verbatim>\<open>S.starts_with(P)\<close>.\<close>

fun starts_with :: "string \<Rightarrow> string \<Rightarrow> bool" where
  "starts_with s [] = True"
| "starts_with [] (p # ps) = False"
| "starts_with (c # s) (p # ps) = (c = p \<and> starts_with s ps)"

text \<open>\<^verbatim>\<open>S.find(P) != StringRef::npos\<close>: \<open>P\<close> occurs somewhere in \<open>S\<close>.\<close>

fun contains :: "string \<Rightarrow> string \<Rightarrow> bool" where
  "contains [] p = (p = [])"
| "contains (c # s) p = (starts_with (c # s) p \<or> contains s p)"

text \<open>
  \<^verbatim>\<open>S.substr(Start, N)\<close>: \<open>Start\<close> is clamped to the length of \<open>S\<close> and \<open>N\<close> to what
  is left, which is what \<open>drop\<close> and \<open>take\<close> do.
\<close>

definition substr :: "string \<Rightarrow> nat \<Rightarrow> nat \<Rightarrow> string" where
  "substr s start n = take n (drop start s)"

text \<open>\<open>a - b\<close> in \<^verbatim>\<open>size_t\<close> (64 bits): the difference wraps around below zero.\<close>

definition size_t_sub :: "nat \<Rightarrow> nat \<Rightarrow> nat" where
  "size_t_sub a b = (if b \<le> a then a - b else a + 2 ^ 64 - b)"

text \<open>
  \<^verbatim>\<open>S.split(Out, Sep)\<close> with the default arguments (no limit, empty pieces kept): the
  pieces of \<open>S\<close> between the occurrences of the one-character separator; the empty string
  gives one empty piece.
\<close>

fun split_sep :: "char \<Rightarrow> string \<Rightarrow> string list" where
  "split_sep sep [] = [[]]"
| "split_sep sep (c # s) =
     (if c = sep then [] # split_sep sep s
      else (case split_sep sep s of
              [] \<Rightarrow> [[c]]
            | w # ws \<Rightarrow> (c # w) # ws))"

subsection \<open>\<^verbatim>\<open>line_iterator\<close>\<close>

text \<open>
  Modelled from the spec: \<^verbatim>\<open>llvm::line_iterator\<close> (\<^verbatim>\<open>llvm/Support/LineIterator.h\<close>, not
  part of the tool's source file), which the spec calls the lines of a file. The tool
  constructs it with the default arguments, so blank lines are skipped and there is no
  comment marker. A line ends at a line feed or at a carriage return followed by a line
  feed; the iteration ends at the end of the buffer or at the first NUL byte, the
  buffer's terminator.
\<close>

fun isAtLineEnd :: "string \<Rightarrow> bool" where
  "isAtLineEnd [] = False"
| "isAtLineEnd [c] = (c = LF)"
| "isAtLineEnd (c # d # r) = (c = LF \<or> (c = CR \<and> d = LF))"

fun skip_line_ends :: "string \<Rightarrow> string" where
  "skip_line_ends [] = []"
| "skip_line_ends [c] = (if c = LF then [] else [c])"
| "skip_line_ends (c # d # r) =
     (if c = LF then skip_line_ends (d # r)
      else if c = CR \<and> d = LF then skip_line_ends r
      else c # d # r)"

text \<open>The line that starts at a position, and the position where it ends.\<close>

fun measure_line :: "string \<Rightarrow> string \<times> string" where
  "measure_line [] = ([], [])"
| "measure_line (c # r) =
     (if c = NUL \<or> isAtLineEnd (c # r) then ([], c # r)
      else (case measure_line r of (l, r') \<Rightarrow> (c # l, r')))"

lemma length_skip_line_ends: "length (skip_line_ends s) \<le> length s"
  by (induction s rule: skip_line_ends.induct) auto

lemma length_measure_line: "length (snd (measure_line s)) \<le> length s"
  by (induction s) (auto split: prod.splits)

lemma measure_line_shorter:
  "s \<noteq> [] \<Longrightarrow> hd s \<noteq> NUL \<Longrightarrow> \<not> isAtLineEnd s \<Longrightarrow> length (snd (measure_line s)) < length s"
proof (cases s)
  case Nil
  then show "s \<noteq> [] \<Longrightarrow> ?thesis" by simp
next
  case (Cons c r)
  assume "hd s \<noteq> NUL" "\<not> isAtLineEnd s"
  with Cons length_measure_line [of r] show ?thesis
    by (auto split: prod.splits)
qed

lemma skip_line_ends_not_at_end: "\<not> isAtLineEnd (skip_line_ends s)"
  by (induction s rule: skip_line_ends.induct) auto

text \<open>
  The iterator is the list of the lines not yet passed, each with the rest of the buffer
  from the end of that line on (the bytes at \<^verbatim>\<open>LI->end()\<close>, without the buffer's
  terminating NUL). The head is the current line; the empty list is the end state.
\<close>

type_synonym line_iter = "(string \<times> string) list"

function line_iterator :: "string \<Rightarrow> line_iter" where
  "line_iterator s =
     (let p = skip_line_ends s in
      if p = [] \<or> hd p = NUL then []
      else measure_line p # line_iterator (snd (measure_line p)))"
  by pat_completeness auto
termination
proof (relation "measure length")
  show "wf (measure length)" by simp
next
  fix s p
  assume p: "p = skip_line_ends s" and ne: "\<not> (p = [] \<or> hd p = NUL)"
  have "length (snd (measure_line p)) < length p"
    using ne skip_line_ends_not_at_end [of s] p by (intro measure_line_shorter) auto
  also have "\<dots> \<le> length s"
    using p length_skip_line_ends by simp
  finally show "(snd (measure_line p), s) \<in> measure length" by simp
qed

declare line_iterator.simps [simp del]

text \<open>\<^verbatim>\<open>*LI\<close>: the current line; the empty \<^verbatim>\<open>StringRef\<close> in the end state.\<close>

fun deref :: "line_iter \<Rightarrow> string" where
  "deref [] = []"
| "deref ((l, r) # ls) = l"

text \<open>
  \<^verbatim>\<open>LI++\<close>: the next line. In the end state the iterator has no buffer left: the library
  asserts that it is not advanced there, and without assertions it reads through a null
  pointer.
\<close>

fun advance :: "line_iter \<Rightarrow> failure + line_iter" where
  "advance [] = Inl Undefined"
| "advance (l # ls) = Inr ls"

subsection \<open>\<^verbatim>\<open>sys::path\<close>\<close>

text \<open>
  Modelled from the spec: \<^verbatim>\<open>llvm::sys::path::stem\<close> and \<^verbatim>\<open>llvm::sys::path::extension\<close>
  (\<^verbatim>\<open>llvm/Support/Path.h\<close>, not part of the tool's source file), which the spec calls
  the filename stem and the extension of the input path. Both look at the file name only,
  the part of the path after its last separator \<^verbatim>\<open>/\<close>: the extension starts at the last
  dot of the file name, the stem is what comes before it; a file name without a dot, and
  the names \<^verbatim>\<open>.\<close> and \<^verbatim>\<open>..\<close>, have an empty extension.
\<close>

definition filename :: "string \<Rightarrow> string" where
  "filename path = rev (takeWhile (\<lambda>c. c \<noteq> CHR ''/'') (rev path))"

definition stem :: "string \<Rightarrow> string" where
  "stem path =
     (let fname = filename path in
      if CHR ''.'' \<in> set fname then
        (if fname = ''.'' \<or> fname = ''..'' then fname
         else rev (tl (dropWhile (\<lambda>c. c \<noteq> CHR ''.'') (rev fname))))
      else fname)"

definition extension :: "string \<Rightarrow> string" where
  "extension path =
     (let fname = filename path in
      if CHR ''.'' \<in> set fname then
        (if fname = ''.'' \<or> fname = ''..'' then []
         else CHR ''.'' # rev (takeWhile (\<lambda>c. c \<noteq> CHR ''.'') (rev fname)))
      else [])"

subsection \<open>\<^verbatim>\<open>util::SimpleTable\<close>\<close>

text \<open>
  Modelled from the spec: the class \<^verbatim>\<open>llvm::util::SimpleTable\<close>
  (\<^verbatim>\<open>llvm/Support/SimpleTable.h\<close>, not part of the tool's source file), the spec's
  TableCodec and Table: an ordered sequence of column names and an ordered sequence of
  rows, each row the sequence of its cells in column order.
\<close>

record SimpleTable =
  ColumnNames :: "string list"
  Rows :: "string list list"

text \<open>\<^verbatim>\<open>getColumnId(Name)\<close>: the position of the column, \<open>-1\<close> when there is none.\<close>

fun getColumnId_in :: "string list \<Rightarrow> string \<Rightarrow> int" where
  "getColumnId_in [] name = - 1"
| "getColumnId_in (c # cs) name =
     (if c = name then 0
      else (let i = getColumnId_in cs name in if i = - 1 then - 1 else i + 1))"

definition getColumnId :: "SimpleTable \<Rightarrow> string \<Rightarrow> int" where
  "getColumnId T name = getColumnId_in (ColumnNames T) name"

text \<open>
  \<^verbatim>\<open>Row.getCell(Name)\<close>: the cell of the row in the named column. The column has to
  exist and the row has to reach it; the library only asserts this.
\<close>

definition getCell :: "SimpleTable \<Rightarrow> string list \<Rightarrow> string \<Rightarrow> failure + string" where
  "getCell T row name =
     (let i = getColumnId T name in
      if 0 \<le> i \<and> nat i < length row then Inr (row ! nat i) else Inl Undefined)"

text \<open>
  \<^verbatim>\<open>SimpleTable::create(Names)\<close>: a table with these columns and no rows; column names
  are unique and not empty, anything else is an error (\<open>None\<close>).
\<close>

definition create :: "string list \<Rightarrow> SimpleTable option" where
  "create names =
     (if distinct names \<and> [] \<notin> set names
      then Some \<lparr>ColumnNames = names, Rows = []\<rparr> else None)"

text \<open>The cells of a row, or the column names, joined by the separator.\<close>

fun join_sep :: "char \<Rightarrow> string list \<Rightarrow> string" where
  "join_sep sep [] = []"
| "join_sep sep [x] = x"
| "join_sep sep (x # y # zs) = x @ sep # join_sep sep (y # zs)"

text \<open>
  \<^verbatim>\<open>write(Out, WriteTitles)\<close>: the bracketed header line (if requested), then one line
  per row, in order.
\<close>

definition write_table :: "SimpleTable \<Rightarrow> bool \<Rightarrow> string" where
  "write_table T WriteTitles =
     (if WriteTitles then ''['' @ join_sep (CHR ''|'') (ColumnNames T) @ '']'' @ [LF] else [])
     @ concat (map (\<lambda>row. join_sep (CHR ''|'') row @ [LF]) (Rows T))"

text \<open>
  \<^verbatim>\<open>read(Buffer)\<close>: the first line has the form \<^verbatim>\<open>[col1|col2|...]\<close> and gives the column
  names; every following non-empty line gives a row, which must have as many cells as
  there are columns. The lines are those of a \<^verbatim>\<open>line_iterator\<close>, as in \<^verbatim>\<open>filterTable\<close>.
\<close>

definition is_title_line :: "string \<Rightarrow> bool" where
  "is_title_line l = (2 \<le> length l \<and> hd l = CHR ''['' \<and> last l = CHR '']'')"

definition read_buffer :: "string \<Rightarrow> SimpleTable option" where
  "read_buffer buf =
     (case map fst (line_iterator buf) of
        [] \<Rightarrow> None
      | title # lines \<Rightarrow>
          if \<not> is_title_line title then None
          else (case create (split_sep (CHR ''|'') (substr title 1 (length title - 2))) of
                  None \<Rightarrow> None
                | Some T \<Rightarrow>
                    (let rows = map (split_sep (CHR ''|'')) lines in
                     if list_all (\<lambda>row. length row = length (ColumnNames T)) rows
                     then Some (T\<lparr>Rows := rows\<rparr>) else None)))"

subsection \<open>The command line and the file system\<close>

text \<open>The four command-line options; an option that was not given is the empty string.\<close>

record options =
  InputFilename :: string
  Output :: string
  Target :: string
  DeviceConfigFile :: string

text \<open>
  What the tool sees of the file system: which paths exist (\<^verbatim>\<open>sys::fs::exists\<close>), the
  bytes of the files that can be read (\<^verbatim>\<open>MemoryBuffer::getFileAsStream\<close>), and which
  paths can be opened for writing (\<^verbatim>\<open>raw_fd_ostream\<close> without an error code).
\<close>

record filesystem =
  present :: "string \<Rightarrow> bool"
  contents :: "string \<Rightarrow> string option"
  writable :: "string \<Rightarrow> bool"

text \<open>\<^verbatim>\<open>SimpleTable::read(FileName)\<close>: \<^verbatim>\<open>read(Buffer)\<close> on the bytes of the file.\<close>

definition read :: "filesystem \<Rightarrow> string \<Rightarrow> SimpleTable option" where
  "read fs name = (case contents fs name of None \<Rightarrow> None | Some buf \<Rightarrow> read_buffer buf)"

subsection \<open>\<^verbatim>\<open>filterTable\<close>\<close>

text \<open>Lines 47 to 50: the name of the output file.\<close>

definition OutputFileName :: "options \<Rightarrow> string" where
  "OutputFileName opts =
     (if Output opts = []
      then stem (InputFilename opts) @ ''_filtered'' @ extension (InputFilename opts)
      else Output opts)"

text \<open>
  Opening the output file and writing a table with its titles into it, as lines 54 to 58
  and lines 123 to 127 both do. Opening creates the file, or empties the one there is.
\<close>

definition write_output :: "filesystem \<Rightarrow> string \<Rightarrow> SimpleTable \<Rightarrow> failure + filesystem" where
  "write_output fs name T =
     (if \<not> writable fs name then Inl (Fatal (''Can't open the output file '' @ name))
      else Inr (fs\<lparr>present := (present fs)(name := True),
                   contents := (contents fs)(name \<mapsto> write_table T True)\<rparr>))"

definition section_header :: string where
  "section_header = ''[SYCL/device requirements]''"

text \<open>Line 78: \<^verbatim>\<open>while (*LI != "[SYCL/device requirements]") LI++;\<close>\<close>

fun find_header :: "line_iter \<Rightarrow> failure + line_iter" where
  "find_header [] = (if deref [] \<noteq> section_header then advance [] else Inr [])"
| "find_header (l # ls) =
     (if deref (l # ls) \<noteq> section_header then find_header ls else Inr (l # ls))"

text \<open>The condition of the loop at lines 82 to 84.\<close>

definition is_requirement_line :: "string \<Rightarrow> bool" where
  "is_requirement_line l =
     (starts_with l ''aspects'' \<or> starts_with l ''reqd_sub_group_size''
      \<or> starts_with l ''fixed_target'')"

text \<open>
  Lines 86 to 89: \<^verbatim>\<open>Array\<close> points at \<^verbatim>\<open>(*LI).substr(8).data()\<close>, and \<^verbatim>\<open>Array[0]\<close> reads
  the four bytes there as one \<^verbatim>\<open>uint32_t\<close>, without a check. The position is given as
  the bytes from it to the end of the buffer; the buffer's terminating NUL follows them
  and can still be read. The value is printed on standard output, which the model does
  not follow; what the model keeps is whether the read stays inside the buffer.
\<close>

definition read_Array0 :: "string \<Rightarrow> failure + unit" where
  "read_Array0 bytes = (if 4 \<le> length bytes + 1 then Inr () else Inl Undefined)"

text \<open>
  The body of the loop, lines 85 to 103. Each branch compares the whole line with a key.
  The three \<^verbatim>\<open>if (false) continue;\<close> do nothing, and no branch advances \<^verbatim>\<open>LI\<close>: the
  iterator leaves the body as it entered it.
\<close>

fun loop_body :: "line_iter \<Rightarrow> failure + line_iter" where
  "loop_body [] = Inr []"
| "loop_body ((l, rest) # ls) =
     (if l = ''aspects'' then
        (case read_Array0 (drop (min (length ''aspects|'') (length l)) (l @ rest)) of
           Inl f \<Rightarrow> Inl f
         | Inr _ \<Rightarrow> Inr ((l, rest) # ls))
      else if l = ''reqd_sub_group_size'' then Inr ((l, rest) # ls)
      else if l = ''fixed_target'' then Inr ((l, rest) # ls)
      else Inr ((l, rest) # ls))"

text \<open>
  Lines 82 to 104: the loop over the lines of the requirements section. It may run
  forever, which is the value \<open>None\<close>.
\<close>

partial_function (option) requirements_loop :: "line_iter \<Rightarrow> (failure + line_iter) option" where
  "requirements_loop LI =
     (if is_requirement_line (deref LI) then
        (case loop_body LI of
           Inl f \<Rightarrow> Some (Inl f)
         | Inr LI' \<Rightarrow> requirements_loop LI')
      else Some (Inr LI))"

declare requirements_loop.simps [code]

text \<open>
  One round of the loop over the rows, lines 65 to 104, for the row \<open>row\<close> of the table:
  the property file is read, and when it contains the section header its lines are
  walked through. The round changes nothing outside itself.
\<close>

definition check_row :: "filesystem \<Rightarrow> SimpleTable \<Rightarrow> string list \<Rightarrow> (failure + unit) option" where
  "check_row fs T row =
     (case getCell T row ''Properties'' of
        Inl f \<Rightarrow> Some (Inl f)
      | Inr PropFile \<Rightarrow>
          (case contents fs PropFile of
             None \<Rightarrow> Some (Inl (Fatal (''Can't read the property file '' @ PropFile)))
           | Some Properties \<Rightarrow>
               if \<not> contains Properties section_header then Some (Inr ())
               else (case find_header (line_iterator Properties) of
                       Inl f \<Rightarrow> Some (Inl f)
                     | Inr LI \<Rightarrow>
                         (case advance LI of
                            Inl f \<Rightarrow> Some (Inl f)
                          | Inr LI' \<Rightarrow>
                              (case requirements_loop LI' of
                                 None \<Rightarrow> None
                               | Some (Inl f) \<Rightarrow> Some (Inl f)
                               | Some (Inr _) \<Rightarrow> Some (Inr ()))))))"

text \<open>
  Lines 64 to 105: the loop over the rows \<^verbatim>\<open>Table[0]\<close> to \<^verbatim>\<open>Table[getNumRows() - 1]\<close>, in
  order; the first failure ends it.
\<close>

fun check_rows :: "filesystem \<Rightarrow> SimpleTable \<Rightarrow> string list list \<Rightarrow> (failure + unit) option" where
  "check_rows fs T [] = Some (Inr ())"
| "check_rows fs T (row # rows) =
     (case check_row fs T row of
        None \<Rightarrow> None
      | Some (Inl f) \<Rightarrow> Some (Inl f)
      | Some (Inr _) \<Rightarrow> check_rows fs T rows)"

text \<open>
  Lines 108 to 120: the input file is read once more (the result is used without a
  check), the column names are cut out of its first line, and a table with these columns
  and no rows is created.
\<close>

definition new_table :: "options \<Rightarrow> filesystem \<Rightarrow> failure + SimpleTable" where
  "new_table opts fs =
     (case contents fs (InputFilename opts) of
        None \<Rightarrow> Inl Undefined
      | Some buf \<Rightarrow>
          (let FirstLine = deref (line_iterator buf);
               Names = split_sep (CHR ''|'')
                 (substr FirstLine 1 (size_t_sub (length FirstLine) 2))
           in case create Names of
                None \<Rightarrow> Inl (Fatal ''Failed to create a new table'')
              | Some NewTable \<Rightarrow> Inr NewTable))"

definition filterTable :: "options \<Rightarrow> filesystem \<Rightarrow> SimpleTable \<Rightarrow> (failure + filesystem) option" where
  "filterTable opts fs T =
     (if getColumnId T ''Properties'' = - 1
      then Some (write_output fs (OutputFileName opts) T)
      else (case check_rows fs T (Rows T) of
              None \<Rightarrow> None
            | Some (Inl f) \<Rightarrow> Some (Inl f)
            | Some (Inr _) \<Rightarrow>
                (case new_table opts fs of
                   Inl f \<Rightarrow> Some (Inl f)
                 | Inr NewTable \<Rightarrow> Some (write_output fs (OutputFileName opts) NewTable))))"

subsection \<open>\<^verbatim>\<open>main\<close>\<close>

text \<open>
  Lines 130 to 159. The target is only tested for being given, and the device
  configuration file only for being there: neither is looked at again. The buffer that
  \<^verbatim>\<open>getFileOrSTDIN\<close> returns is only tested for an error; for the name \<^verbatim>\<open>-\<close> it is
  standard input, taken as readable here. The message of that error ends with the
  system's text for the error code, which is left out.
\<close>

definition main :: "options \<Rightarrow> filesystem \<Rightarrow> (failure + filesystem) option" where
  "main opts fs =
     (if InputFilename opts = [] then Some (Inl (Fatal ''Input file not provided.''))
      else if \<not> present fs (InputFilename opts)
        then Some (Inl (Fatal (''Input file '' @ [CHR 0x27] @ InputFilename opts @ [CHR 0x27] @ '' not found.'')))
      else if Target opts = [] then Some (Inl (Fatal ''Target not provided.''))
      else if DeviceConfigFile opts = []
        then Some (Inl (Fatal ''Path to the device configuration file not provided.''))
      else if \<not> present fs (DeviceConfigFile opts)
        then Some (Inl (Fatal (''Device configuration file '' @ [CHR 0x27] @ DeviceConfigFile opts
                                @ [CHR 0x27] @ '' not found.'')))
      else if InputFilename opts \<noteq> ''-'' \<and> contents fs (InputFilename opts) = None
        then Some (Inl (Fatal ''Could not open input file: ''))
      else (case read fs (InputFilename opts) of
              None \<Rightarrow> Some (Inl (Fatal ''Can't read the input table''))
            | Some T \<Rightarrow> filterTable opts fs T))"

text \<open>The exit code of a run that ends: 0 from \<^verbatim>\<open>return 0\<close>, 1 from \<^verbatim>\<open>exit(1)\<close>.\<close>

fun exit_code :: "(failure + filesystem) option \<Rightarrow> int option" where
  "exit_code (Some (Inr fs)) = Some 0"
| "exit_code (Some (Inl (Fatal m))) = Some 1"
| "exit_code (Some (Inl Undefined)) = None"
| "exit_code None = None"

section \<open>Inputs\<close>

subsection \<open>Tables that can be written and read back\<close>

text \<open>
  Modelled from the spec: the well-formed tables of the spec's data model. Column names
  are unique and not empty, and every row has one cell for each column.
\<close>

definition well_formed :: "SimpleTable \<Rightarrow> bool" where
  "well_formed T =
     (distinct (ColumnNames T) \<and> [] \<notin> set (ColumnNames T)
      \<and> list_all (\<lambda>row. length row = length (ColumnNames T)) (Rows T))"

text \<open>
  Text that the table format can carry in a cell or a column name: it holds no column
  separator and none of the bytes that end a line or the buffer. A table is representable
  when it is well formed, has a column, all its names and cells are such text, and no row
  is a single empty cell (the line of such a row would be blank, and blank lines are
  skipped).
\<close>

definition plain_text :: "string \<Rightarrow> bool" where
  "plain_text s = (CHR ''|'' \<notin> set s \<and> LF \<notin> set s \<and> CR \<notin> set s \<and> NUL \<notin> set s)"

definition representable :: "SimpleTable \<Rightarrow> bool" where
  "representable T =
     (well_formed T \<and> ColumnNames T \<noteq> []
      \<and> list_all plain_text (ColumnNames T)
      \<and> list_all (list_all plain_text) (Rows T)
      \<and> [[]] \<notin> set (Rows T))"

text \<open>The text of a line between two line ends, and the title line of a table.\<close>

definition line_text :: "string \<Rightarrow> bool" where
  "line_text l = (l \<noteq> [] \<and> LF \<notin> set l \<and> CR \<notin> set l \<and> NUL \<notin> set l)"

definition title_line :: "string list \<Rightarrow> string" where
  "title_line cols = ''['' @ join_sep (CHR ''|'') cols @ '']''"

subsection \<open>Example inputs\<close>

text \<open>
  A file system given by the files in it, where every path can be opened for writing; a
  command line; and a table file with one row, whose property file is \<^verbatim>\<open>a.prop\<close>.
\<close>

definition files_of :: "(string \<times> string) list \<Rightarrow> filesystem" where
  "files_of files =
     \<lparr>present = (\<lambda>p. map_of files p \<noteq> None), contents = map_of files, writable = (\<lambda>p. True)\<rparr>"

definition run_options :: options where
  "run_options =
     \<lparr>InputFilename = ''t.table'', Output = ''out.table'', Target = ''gpu'',
      DeviceConfigFile = ''devices.yaml''\<rparr>"

definition table_bytes :: string where
  "table_bytes = ''[Code|Properties]'' @ [LF] @ ''a.bc|a.prop'' @ [LF]"

definition example_table :: SimpleTable where
  "example_table = \<lparr>ColumnNames = [''Code'', ''Properties''], Rows = [[''a.bc'', ''a.prop'']]\<rparr>"

definition files_with :: "string \<Rightarrow> filesystem" where
  "files_with prop =
     files_of [(''t.table'', table_bytes), (''devices.yaml'', []), (''a.prop'', prop)]"

definition output_of :: "(failure + filesystem) option \<Rightarrow> string \<Rightarrow> (failure + string option) option" where
  "output_of r name =
     (case r of
        None \<Rightarrow> None
      | Some (Inl f) \<Rightarrow> Some (Inl f)
      | Some (Inr fs) \<Rightarrow> Some (Inr (contents fs name)))"

text \<open>Property files: three with one entry in the requirements section, one with the bare key.\<close>

definition subgroup_props :: string where
  "subgroup_props = ''[SYCL/device requirements]'' @ [LF] @ ''reqd_sub_group_size|16'' @ [LF]"

definition truncated_aspects_props :: string where
  "truncated_aspects_props = ''[SYCL/device requirements]'' @ [LF] @ ''aspects|abc'' @ [LF]"

definition bare_aspects_props :: string where
  "bare_aspects_props = ''[SYCL/device requirements]'' @ [LF] @ ''aspects''"

definition fixed_target_props :: string where
  "fixed_target_props = ''[SYCL/device requirements]'' @ [LF] @ ''fixed_target|gpu'' @ [LF]"

text \<open>A property file that holds the text of the section header, but not as a line.\<close>

definition embedded_header_props :: string where
  "embedded_header_props = ''# [SYCL/device requirements]'' @ [LF]"

text \<open>Property files without an entry: an empty requirements section, and another section.\<close>

definition empty_section_props :: string where
  "empty_section_props = ''[SYCL/device requirements]'' @ [LF]"

definition other_section_props :: string where
  "other_section_props = ''[SYCL/kernel names]'' @ [LF] @ ''foo|1'' @ [LF]"

text \<open>A table without a \<^verbatim>\<open>Properties\<close> column, in memory and as a file.\<close>

definition code_table :: SimpleTable where
  "code_table = \<lparr>ColumnNames = [''Code''], Rows = [[''a.bc''], [''b.bc'']]\<rparr>"

definition code_files :: filesystem where
  "code_files = files_of [(''t.table'', ''[Code]'' @ [LF] @ ''a.bc'' @ [LF]), (''devices.yaml'', [])]"

text \<open>The file system after a run on it that wrote the table to \<^verbatim>\<open>out.table\<close>.\<close>

definition code_files_after :: filesystem where
  "code_files_after =
     code_files\<lparr>present := (present code_files)(''out.table'' := True),
       contents := (contents code_files)(''out.table'' \<mapsto> ''[Code]'' @ [LF] @ ''a.bc'' @ [LF])\<rparr>"

text \<open>A well-formed table with a cell that holds the column separator.\<close>

definition bar_table :: SimpleTable where
  "bar_table = \<lparr>ColumnNames = [''A''], Rows = [[''x|y'']]\<rparr>"

text \<open>A command line without \<^verbatim>\<open>-o\<close>, whose input file is in a directory.\<close>

definition default_options :: options where
  "default_options =
     \<lparr>InputFilename = ''build/t.table'', Output = [], Target = ''gpu'',
      DeviceConfigFile = ''devices.yaml''\<rparr>"

section \<open>The loop over the requirements section\<close>

lemma loop_body_same: "loop_body LI = Inr LI' \<Longrightarrow> LI' = LI"
  by (cases LI rule: loop_body.cases) (auto split: if_splits sum.splits)

lemma requirements_loop_Some_D:
  assumes "requirements_loop LI = Some r"
  shows "\<not> (is_requirement_line (deref LI) \<and> loop_body LI = Inr LI)"
proof (rule requirements_loop.raw_induct
    [where P = "\<lambda>LI r. \<not> (is_requirement_line (deref LI) \<and> loop_body LI = Inr LI)", OF _ assms])
  fix f LI r
  assume IH: "\<And>x y. f x = Some y \<Longrightarrow> \<not> (is_requirement_line (deref x) \<and> loop_body x = Inr x)"
    and step: "(if is_requirement_line (deref LI)
                then case loop_body LI of Inl e \<Rightarrow> Some (Inl e) | Inr LI' \<Rightarrow> f LI'
                else Some (Inr LI)) = Some r"
  show "\<not> (is_requirement_line (deref LI) \<and> loop_body LI = Inr LI)"
  proof
    assume stuck: "is_requirement_line (deref LI) \<and> loop_body LI = Inr LI"
    with step have "f LI = Some r" by simp
    from IH [OF this] stuck show False by simp
  qed
qed

lemma requirements_loop_stuck:
  "is_requirement_line (deref LI) \<Longrightarrow> loop_body LI = Inr LI \<Longrightarrow> requirements_loop LI = None"
  using requirements_loop_Some_D [of LI] by (cases "requirements_loop LI") auto

lemma requirements_loop_exit:
  "\<not> is_requirement_line (deref LI) \<Longrightarrow> requirements_loop LI = Some (Inr LI)"
  by (subst requirements_loop.simps) simp

lemma requirements_loop_fail:
  "is_requirement_line (deref LI) \<Longrightarrow> loop_body LI = Inl f \<Longrightarrow> requirements_loop LI = Some (Inl f)"
  by (subst requirements_loop.simps) simp

section \<open>Runs on the example inputs\<close>

lemma read_example_table: "read_buffer table_bytes = Some example_table"
  by code_simp

lemma main_files_with:
  "main run_options (files_with prop) = filterTable run_options (files_with prop) example_table"
  using read_example_table
  by (simp add: main_def run_options_def files_with_def files_of_def read_def)

lemma filterTable_files_with:
  "check_row (files_with prop) example_table [''a.bc'', ''a.prop''] = None
   \<Longrightarrow> filterTable run_options (files_with prop) example_table = None"
  by (simp add: filterTable_def getColumnId_def example_table_def)

lemma check_row_files_with:
  "contains prop section_header \<Longrightarrow> find_header (line_iterator prop) = Inr (h # LI)
   \<Longrightarrow> check_row (files_with prop) example_table [''a.bc'', ''a.prop'']
       = (case requirements_loop LI of
            None \<Rightarrow> None
          | Some (Inl f) \<Rightarrow> Some (Inl f)
          | Some (Inr _) \<Rightarrow> Some (Inr ()))"
  by (simp add: check_row_def getCell_def getColumnId_def example_table_def files_with_def files_of_def)

lemma main_files_with_stuck:
  assumes "contains prop section_header"
    and "find_header (line_iterator prop) = Inr (h # LI)"
    and "is_requirement_line (deref LI)"
    and "loop_body LI = Inr LI"
  shows "main run_options (files_with prop) = None"
proof -
  from assms(3,4) have "requirements_loop LI = None"
    by (rule requirements_loop_stuck)
  with check_row_files_with [OF assms(1,2)]
  have "check_row (files_with prop) example_table [''a.bc'', ''a.prop''] = None"
    by simp
  then show ?thesis
    by (simp add: main_files_with filterTable_files_with)
qed

section \<open>Tables and columns\<close>

lemma getColumnId_in_ge: "- 1 \<le> getColumnId_in cs name"
  by (induction cs) (auto simp: Let_def)

lemma getColumnId_in_absent: "getColumnId_in cs name = - 1 \<longleftrightarrow> name \<notin> set cs"
proof (induction cs)
  case Nil
  show ?case by simp
next
  case (Cons c cs)
  with getColumnId_in_ge [of cs name] show ?case
    by (auto simp: Let_def)
qed

lemma deref_fst: "map fst LI = l # ls \<Longrightarrow> deref LI = l"
  by (cases LI rule: deref.cases) auto

lemma read_buffer_title:
  assumes "read_buffer buf = Some T"
  shows "create (split_sep (CHR ''|'')
           (substr (deref (line_iterator buf)) 1 (size_t_sub (length (deref (line_iterator buf))) 2)))
         = Some \<lparr>ColumnNames = ColumnNames T, Rows = []\<rparr>"
proof -
  from assms obtain title lines where
    ls: "map fst (line_iterator buf) = title # lines" and title: "is_title_line title"
    by (auto simp: read_buffer_def split: list.splits if_splits)
  from ls have d: "deref (line_iterator buf) = title" by (rule deref_fst)
  from title have "size_t_sub (length title) 2 = length title - 2"
    by (simp add: is_title_line_def size_t_sub_def)
  with assms ls title d show ?thesis
    by (auto simp: read_buffer_def create_def Let_def split: option.splits if_splits)
qed

lemma new_table_read:
  assumes "read fs (InputFilename opts) = Some T"
  shows "new_table opts fs = Inr \<lparr>ColumnNames = ColumnNames T, Rows = []\<rparr>"
proof -
  from assms obtain buf where buf: "contents fs (InputFilename opts) = Some buf"
    and T: "read_buffer buf = Some T"
    by (auto simp: read_def split: option.splits)
  from read_buffer_title [OF T] buf show ?thesis
    by (simp add: new_table_def Let_def)
qed

lemma write_output_contents:
  "write_output fs name T = Inr fs' \<Longrightarrow> contents fs' name = Some (write_table T True)"
  by (auto simp: write_output_def split: if_splits)

lemma filterTable_columns:
  assumes run: "filterTable opts fs T = Some (Inr fs')"
    and T: "read fs (InputFilename opts) = Some T"
  shows "\<exists>T'. contents fs' (OutputFileName opts) = Some (write_table T' True)
            \<and> ColumnNames T' = ColumnNames T"
proof (cases "getColumnId T ''Properties'' = - 1")
  case True
  with run have "write_output fs (OutputFileName opts) T = Inr fs'"
    by (simp add: filterTable_def)
  from write_output_contents [OF this] show ?thesis by blast
next
  case False
  with run new_table_read [OF T]
  have "write_output fs (OutputFileName opts) \<lparr>ColumnNames = ColumnNames T, Rows = []\<rparr> = Inr fs'"
    by (simp add: filterTable_def split: option.splits sum.splits)
  from write_output_contents [OF this] show ?thesis
    by (intro exI [of _ "\<lparr>ColumnNames = ColumnNames T, Rows = []\<rparr>"]) simp
qed

section \<open>File names\<close>

lemma takeWhile_append_stop:
  "\<forall>x \<in> set xs. P x \<Longrightarrow> ys = [] \<or> \<not> P (hd ys) \<Longrightarrow> takeWhile P (xs @ ys) = xs"
  by (induction xs) (auto simp: takeWhile_eq_Nil_iff)

lemma filename_of_name:
  assumes "CHR ''/'' \<notin> set name"
  shows "filename name = name"
proof -
  have "takeWhile (\<lambda>c. c \<noteq> CHR ''/'') (rev name) = rev name"
    using assms by (intro takeWhile_eq_all_conv [THEN iffD2]) auto
  then show ?thesis by (simp only: filename_def rev_rev_ident)
qed

lemma filename_dir:
  assumes "CHR ''/'' \<notin> set name" and "dir = [] \<or> last dir = CHR ''/''"
  shows "filename (dir @ name) = name"
proof -
  have "takeWhile (\<lambda>c. c \<noteq> CHR ''/'') (rev name @ rev dir) = rev name"
    using assms by (intro takeWhile_append_stop) (auto simp: hd_rev)
  then show ?thesis by (simp add: filename_def)
qed

lemma split_at_last_dot:
  assumes "CHR ''.'' \<in> set f"
  shows "rev (tl (dropWhile (\<lambda>c. c \<noteq> CHR ''.'') (rev f))) @ CHR ''.'' # rev (takeWhile (\<lambda>c. c \<noteq> CHR ''.'') (rev f)) = f"
proof -
  let ?dw = "dropWhile (\<lambda>c. c \<noteq> CHR ''.'') (rev f)"
  let ?tw = "takeWhile (\<lambda>c. c \<noteq> CHR ''.'') (rev f)"
  from assms have ne: "?dw \<noteq> []" by simp
  then have "hd ?dw = CHR ''.''" using hd_dropWhile [of "\<lambda>c. c \<noteq> CHR ''.''" "rev f"] by simp
  with ne have "?dw = CHR ''.'' # tl ?dw" by (cases ?dw) auto
  then have "rev (tl ?dw) @ CHR ''.'' # rev ?tw = rev ?dw @ rev ?tw"
    by (metis append.assoc append_Cons append_Nil rev.simps(2))
  also have "\<dots> = rev (?tw @ ?dw)" by (simp only: rev_append)
  also have "\<dots> = f" by (simp only: takeWhile_dropWhile_id rev_rev_ident)
  finally show ?thesis .
qed

lemma stem_extension: "stem path @ extension path = filename path"
  using split_at_last_dot [of "filename path"]
  by (simp add: stem_def extension_def Let_def)

lemma stem_dir:
  "CHR ''/'' \<notin> set name \<Longrightarrow> dir = [] \<or> last dir = CHR ''/'' \<Longrightarrow> stem (dir @ name) = stem name"
  by (simp add: stem_def filename_dir filename_of_name)

lemma extension_dir:
  "CHR ''/'' \<notin> set name \<Longrightarrow> dir = [] \<or> last dir = CHR ''/'' \<Longrightarrow> extension (dir @ name) = extension name"
  by (simp add: extension_def filename_dir filename_of_name)

section \<open>The table format\<close>

subsection \<open>Splitting and joining\<close>

lemma split_sep_not_Nil: "split_sep sep s \<noteq> []"
  by (induction s) (auto split: list.splits)

lemma split_sep_plain: "sep \<notin> set s \<Longrightarrow> split_sep sep s = [s]"
  by (induction s) auto

lemma split_sep_append:
  "sep \<notin> set x \<Longrightarrow> split_sep sep (x @ sep # s) = x # split_sep sep s"
  by (induction x) auto

lemma split_join:
  "cells \<noteq> [] \<Longrightarrow> \<forall>c \<in> set cells. sep \<notin> set c \<Longrightarrow> split_sep sep (join_sep sep cells) = cells"
  by (induction sep cells rule: join_sep.induct) (auto simp: split_sep_plain split_sep_append)

lemma set_join_sep: "set (join_sep sep cells) \<subseteq> insert sep (\<Union>c \<in> set cells. set c)"
  by (induction sep cells rule: join_sep.induct) auto

lemma join_sep_empty: "join_sep sep cells = [] \<longleftrightarrow> cells = [] \<or> cells = [[]]"
  by (induction sep cells rule: join_sep.induct) auto

subsection \<open>Lines\<close>

lemma skip_line_ends_LF: "skip_line_ends (LF # s) = skip_line_ends s"
  by (cases s) auto

lemma line_iterator_LF: "line_iterator (LF # s) = line_iterator s"
  by (simp add: line_iterator.simps [of "LF # s"] line_iterator.simps [of s] skip_line_ends_LF)

lemma line_iterator_Nil: "line_iterator [] = []"
  by (simp add: line_iterator.simps)

lemma skip_line_ends_line: "line_text l \<Longrightarrow> skip_line_ends (l @ LF # s) = l @ LF # s"
  by (cases l rule: skip_line_ends.cases) (auto simp: line_text_def)

lemma isAtLineEnd_Cons: "c \<noteq> LF \<Longrightarrow> c \<noteq> CR \<Longrightarrow> \<not> isAtLineEnd (c # s)"
  by (cases s) auto

lemma measure_line_line:
  "LF \<notin> set l \<Longrightarrow> CR \<notin> set l \<Longrightarrow> NUL \<notin> set l \<Longrightarrow> measure_line (l @ LF # s) = (l, LF # s)"
proof (induction l)
  case Nil
  show ?case by (cases s) auto
next
  case (Cons c l)
  then have "\<not> isAtLineEnd (c # l @ LF # s)" by (intro isAtLineEnd_Cons) auto
  with Cons show ?case by auto
qed

lemma line_iterator_line:
  assumes "line_text l"
  shows "line_iterator (l @ LF # s) = (l, LF # s) # line_iterator s"
proof -
  from assms have m: "measure_line (l @ LF # s) = (l, LF # s)"
    by (intro measure_line_line) (auto simp: line_text_def)
  from assms have "l @ LF # s \<noteq> [] \<and> hd (l @ LF # s) \<noteq> NUL"
    by (cases l) (auto simp: line_text_def)
  then show ?thesis
    using skip_line_ends_line [OF assms, of s] m
    by (simp add: line_iterator.simps [of "l @ LF # s"] line_iterator_LF)
qed

lemma line_iterator_lines:
  "\<forall>l \<in> set ls. line_text l \<Longrightarrow> map fst (line_iterator (concat (map (\<lambda>l. l @ [LF]) ls))) = ls"
  by (induction ls) (auto simp: line_iterator_Nil line_iterator_line)

subsection \<open>Title and row lines\<close>

lemma write_table_lines:
  "write_table T True =
     concat (map (\<lambda>l. l @ [LF]) (title_line (ColumnNames T) # map (join_sep (CHR ''|'')) (Rows T)))"
  by (simp add: write_table_def title_line_def comp_def)

lemma join_sep_line_chars:
  assumes "\<forall>c \<in> set cells. plain_text c" and "x \<in> {LF, CR, NUL}"
  shows "x \<notin> set (join_sep (CHR ''|'') cells)"
proof
  assume "x \<in> set (join_sep (CHR ''|'') cells)"
  with set_join_sep [of "CHR ''|''" cells]
  have "x = CHR ''|'' \<or> (\<exists>c \<in> set cells. x \<in> set c)" by auto
  with assms show False by (auto simp: plain_text_def)
qed

lemma line_text_title:
  assumes "\<forall>c \<in> set cols. plain_text c"
  shows "line_text (title_line cols)"
  using join_sep_line_chars [OF assms]
  by (simp add: line_text_def title_line_def)

lemma line_text_row:
  assumes "\<forall>c \<in> set row. plain_text c" and "row \<noteq> []" and "row \<noteq> [[]]"
  shows "line_text (join_sep (CHR ''|'') row)"
  using join_sep_line_chars [OF assms(1)] assms(2,3)
  by (simp add: line_text_def join_sep_empty)

lemma is_title_line_title: "is_title_line (title_line cols)"
  by (simp add: is_title_line_def title_line_def)

lemma substr_title_line:
  "substr (title_line cols) 1 (length (title_line cols) - 2) = join_sep (CHR ''|'') cols"
  by (simp add: substr_def title_line_def)

section \<open>The claims\<close>

text \<open>
  C1 (the code differs). The claim: with a \<^verbatim>\<open>Properties\<close> column, a row is in the output
  table if and only if every clause of its requirements section is supported by the
  device. The code at the table whose one row names a property file with an empty
  requirements section, where no clause is unsupported: the run ends well, and the output
  file holds the title line and no row.
\<close>

theorem C1_row_without_clauses_is_dropped:
  "read (files_with empty_section_props) ''t.table'' = Some example_table
   \<and> output_of (main run_options (files_with empty_section_props)) ''out.table''
       = Some (Inr (Some (''[Code|Properties]'' @ [LF])))"
  by code_simp

text \<open>
  C2 (the code differs). The claim: a row whose property file does not contain the
  section header is in the output table, as it was. The code at the table whose one row
  names a property file with another section only: the run ends well, and the output file
  holds the title line and no row.
\<close>

theorem C2_row_without_section_is_dropped:
  "\<not> contains other_section_props section_header
   \<and> read (files_with other_section_props) ''t.table'' = Some example_table
   \<and> output_of (main run_options (files_with other_section_props)) ''out.table''
       = Some (Inr (Some (''[Code|Properties]'' @ [LF])))"
  by code_simp

text \<open>
  C3. A table without a \<^verbatim>\<open>Properties\<close> column is written to the output file as it is,
  titles first: the same columns and the same rows in the same order, whatever the cells
  hold. The only other outcome is the fatal error of an output file that cannot be opened.
\<close>

theorem filterTable_no_Properties:
  assumes "''Properties'' \<notin> set (ColumnNames T)"
  shows "filterTable opts fs T =
    (if writable fs (OutputFileName opts)
     then Some (Inr (fs\<lparr>present := (present fs)(OutputFileName opts := True),
                         contents := (contents fs)(OutputFileName opts \<mapsto> write_table T True)\<rparr>))
     else Some (Inl (Fatal (''Can't open the output file '' @ OutputFileName opts))))"
  using assms getColumnId_in_absent [of "ColumnNames T" "''Properties''"]
  by (simp add: filterTable_def getColumnId_def write_output_def)

text \<open>C3 at the table with the column \<^verbatim>\<open>Code\<close> and two rows.\<close>

theorem filterTable_no_Properties_witness:
  "''Properties'' \<notin> set (ColumnNames code_table)
   \<and> output_of (filterTable run_options code_files code_table) ''out.table''
       = Some (Inr (Some (''[Code]'' @ [LF] @ ''a.bc'' @ [LF] @ ''b.bc'' @ [LF])))"
proof -
  have absent: "''Properties'' \<notin> set (ColumnNames code_table)"
    by (simp add: code_table_def)
  have out: "OutputFileName run_options = ''out.table''"
    by (simp add: OutputFileName_def run_options_def)
  have "write_table code_table True = ''[Code]'' @ [LF] @ ''a.bc'' @ [LF] @ ''b.bc'' @ [LF]"
    by (simp add: write_table_def code_table_def)
  with absent filterTable_no_Properties [OF absent, of run_options code_files] out
  show ?thesis
    by (simp add: output_of_def code_files_def files_of_def)
qed

text \<open>
  C4. When a run ends well, the input file held a table, and the output file holds a
  table written with its titles whose column names are those of the input table, in the
  same order.
\<close>

theorem main_columns:
  assumes "main opts fs = Some (Inr fs')"
  shows "\<exists>T T'. read fs (InputFilename opts) = Some T
            \<and> contents fs' (OutputFileName opts) = Some (write_table T' True)
            \<and> ColumnNames T' = ColumnNames T"
proof -
  from assms obtain T where T: "read fs (InputFilename opts) = Some T"
    and run: "filterTable opts fs T = Some (Inr fs')"
    by (auto simp: main_def split: if_splits option.splits)
  from filterTable_columns [OF run T] T show ?thesis by blast
qed

text \<open>C4 at a run on the table file with the column \<^verbatim>\<open>Code\<close> and one row.\<close>

theorem main_columns_witness:
  "main run_options code_files = Some (Inr code_files_after)
   \<and> (\<exists>T T'. read code_files (InputFilename run_options) = Some T
         \<and> contents code_files_after (OutputFileName run_options) = Some (write_table T' True)
         \<and> ColumnNames T' = ColumnNames T)"
proof -
  have T: "read_buffer (''[Code]'' @ [LF] @ ''a.bc'' @ [LF]) = Some \<lparr>ColumnNames = [''Code''], Rows = [[''a.bc'']]\<rparr>"
    by code_simp
  have run: "main run_options code_files = Some (Inr code_files_after)"
    using T
    by (simp add: main_def run_options_def code_files_def code_files_after_def files_of_def read_def
        filterTable_def getColumnId_def write_output_def OutputFileName_def write_table_def)
  from main_columns [OF run] run show ?thesis
    by simp
qed

text \<open>
  C5 (the code differs). The claim: a run whose target is not in the device capability
  description exits with code 1 and creates no output file. The code at a target that the
  (empty) device configuration file does not describe: the run exits with code 0 and the
  output file is there.
\<close>

theorem C5_unknown_target_run_succeeds:
  "contents code_files ''devices.yaml'' = Some []
   \<and> contents code_files ''out.table'' = None
   \<and> exit_code (main (run_options\<lparr>Target := ''no_such_target''\<rparr>) code_files) = Some 0
   \<and> output_of (main (run_options\<lparr>Target := ''no_such_target''\<rparr>) code_files) ''out.table''
       = Some (Inr (Some (''[Code]'' @ [LF] @ ''a.bc'' @ [LF])))"
  by code_simp

text \<open>
  C6 (the code differs). The claim: the payload of an \<^verbatim>\<open>aspects\<close> entry is decoded with
  bounds checks, a payload whose length is not a multiple of the integer width is a fatal
  decode error, and no read leaves the payload. The code at a property file whose
  \<^verbatim>\<open>aspects\<close> entry has a payload of three bytes: no error is reported, the run never
  returns. The code at a property file that ends with the bare key \<^verbatim>\<open>aspects\<close>: four
  bytes are read at the end of the buffer, where only the terminator is left.
\<close>

theorem C6_aspects_payload_is_not_checked:
  "main run_options (files_with truncated_aspects_props) = None
   \<and> output_of (main run_options (files_with bare_aspects_props)) ''out.table''
       = Some (Inl Undefined)"
proof
  show "main run_options (files_with truncated_aspects_props) = None"
  proof (rule main_files_with_stuck)
    show "contains truncated_aspects_props section_header"
      by code_simp
    show "find_header (line_iterator truncated_aspects_props) =
            Inr ((''[SYCL/device requirements]'', [LF] @ ''aspects|abc'' @ [LF]) # [(''aspects|abc'', [LF])])"
      by code_simp
    show "is_requirement_line (deref [(''aspects|abc'', [LF])])"
      by (simp add: is_requirement_line_def)
    show "loop_body [(''aspects|abc'', [LF])] = Inr [(''aspects|abc'', [LF])]"
      by simp
  qed
  show "output_of (main run_options (files_with bare_aspects_props)) ''out.table'' = Some (Inl Undefined)"
    by code_simp
qed

text \<open>
  C7, as stated, fails: the claim is that every well-formed table is read back from what
  was written for it. The table with the one column \<^verbatim>\<open>A\<close> and the one cell \<^verbatim>\<open>x|y\<close> is
  well formed; its row is written as the line \<^verbatim>\<open>x|y\<close>, which is read as two cells, one
  more than there are columns, and reading fails.
\<close>

theorem read_write_roundtrip_counterexample:
  "well_formed bar_table
   \<and> write_table bar_table True = ''[A]'' @ [LF] @ ''x|y'' @ [LF]
   \<and> read_buffer (write_table bar_table True) = None
   \<and> read_buffer (write_table bar_table True) \<noteq> Some bar_table"
  by code_simp

text \<open>
  C7, amended. Every representable table is read back from what was written for it with
  the titles: a well-formed table with at least one column, whose column names and cells
  hold no \<^verbatim>\<open>|\<close>, line feed, carriage return or NUL byte, and which has no row that is a
  single empty cell.
\<close>

theorem read_write_roundtrip:
  assumes "representable T"
  shows "read_buffer (write_table T True) = Some T"
proof -
  let ?cols = "ColumnNames T" and ?rows = "Rows T"
  from assms have cols: "?cols \<noteq> []" "distinct ?cols" "[] \<notin> set ?cols"
    and plain_cols: "\<forall>c \<in> set ?cols. plain_text c"
    and arity: "\<forall>row \<in> set ?rows. length row = length ?cols"
    and plain_rows: "\<forall>row \<in> set ?rows. \<forall>c \<in> set row. plain_text c"
    and no_blank: "[[]] \<notin> set ?rows"
    by (auto simp: representable_def well_formed_def list_all_iff)
  have rows_ne: "\<forall>row \<in> set ?rows. row \<noteq> []"
    using arity cols(1) by auto
  have "\<forall>l \<in> set (title_line ?cols # map (join_sep (CHR ''|'')) ?rows). line_text l"
    using line_text_title [OF plain_cols] plain_rows rows_ne no_blank
    by (auto intro!: line_text_row)
  then have lines: "map fst (line_iterator (write_table T True)) =
      title_line ?cols # map (join_sep (CHR ''|'')) ?rows"
    unfolding write_table_lines by (rule line_iterator_lines)
  have split_cols: "split_sep (CHR ''|'') (join_sep (CHR ''|'') ?cols) = ?cols"
    using cols(1) plain_cols by (intro split_join) (auto simp: plain_text_def)
  have split_row: "split_sep (CHR ''|'') (join_sep (CHR ''|'') row) = row"
    if "row \<in> set ?rows" for row
    using that rows_ne plain_rows by (intro split_join) (auto simp: plain_text_def)
  then have split_rows: "map (split_sep (CHR ''|'') \<circ> join_sep (CHR ''|'')) ?rows = ?rows"
    by (intro map_idI) simp
  have created: "create ?cols = Some \<lparr>ColumnNames = ?cols, Rows = []\<rparr>"
    using cols by (simp add: create_def)
  show ?thesis
    using lines is_title_line_title [of ?cols] substr_title_line [of ?cols] split_cols split_rows
      created arity
    by (simp add: read_buffer_def list_all_iff split_row)
qed

text \<open>C7, amended, at the table with two columns and one row.\<close>

theorem read_write_roundtrip_witness:
  "representable example_table
   \<and> read_buffer (write_table example_table True) = Some example_table"
proof -
  have r: "representable example_table"
    by (simp add: representable_def well_formed_def plain_text_def example_table_def)
  from read_write_roundtrip [OF r] r show ?thesis by simp
qed

text \<open>
  C8 (the code differs). The claim: the tool ends on every input, and the loop over the
  requirements section always ends. The code at a property file whose requirements
  section has one entry: the loop never leaves that line, and the run never returns.
  The code at a property file that holds the header's text inside a line: the search of
  line 78 advances the iterator past its end, which is neither of the two ways to end.
\<close>

theorem C8_requirements_loop_never_returns:
  "requirements_loop [(''reqd_sub_group_size|16'', [LF])] = None
   \<and> main run_options (files_with subgroup_props) = None
   \<and> output_of (main run_options (files_with embedded_header_props)) ''out.table''
       = Some (Inl Undefined)"
proof (intro conjI)
  have line: "is_requirement_line (deref [(''reqd_sub_group_size|16'', [LF])])"
    by (simp add: is_requirement_line_def)
  have body: "loop_body [(''reqd_sub_group_size|16'', [LF])] = Inr [(''reqd_sub_group_size|16'', [LF])]"
    by simp
  from line body show "requirements_loop [(''reqd_sub_group_size|16'', [LF])] = None"
    by (rule requirements_loop_stuck)
  show "main run_options (files_with subgroup_props) = None"
  proof (rule main_files_with_stuck [OF _ _ line body])
    show "contains subgroup_props section_header"
      by code_simp
    show "find_header (line_iterator subgroup_props) =
            Inr ((''[SYCL/device requirements]'', [LF] @ ''reqd_sub_group_size|16'' @ [LF])
                 # [(''reqd_sub_group_size|16'', [LF])])"
      by code_simp
  qed
  show "output_of (main run_options (files_with embedded_header_props)) ''out.table''
          = Some (Inl Undefined)"
    by code_simp
qed

text \<open>
  C9, as stated, fails: the claim is that without \<^verbatim>\<open>-o\<close> the output path is the input
  path with \<^verbatim>\<open>_filtered\<close> after the stem of its file name, the directory part kept. For
  the input path \<^verbatim>\<open>build/t.table\<close> the output path is \<^verbatim>\<open>t_filtered.table\<close>, without the
  directory.
\<close>

theorem OutputFileName_default_counterexample:
  "Output default_options = []
   \<and> InputFilename default_options = ''build/'' @ ''t'' @ ''.table''
   \<and> OutputFileName default_options = ''t_filtered.table''
   \<and> OutputFileName default_options \<noteq> ''build/'' @ ''t'' @ ''_filtered'' @ ''.table''"
  by (simp add: default_options_def OutputFileName_def stem_def extension_def filename_def)

text \<open>
  C9, amended. Without \<^verbatim>\<open>-o\<close>, for an input path made of a directory part (empty, or
  ending in \<^verbatim>\<open>/\<close>; the network root \<^verbatim>\<open>//\<close> apart) and a file name, the output path is
  the stem of the file name, then \<^verbatim>\<open>_filtered\<close>, then the extension of the file name,
  where stem and extension together are the file name: the directory part of the input
  path is not in the output path.
\<close>

theorem OutputFileName_default:
  assumes "Output opts = []"
    and "InputFilename opts = dir @ name"
    and "dir = [] \<or> last dir = CHR ''/''"
    and "dir \<noteq> ''//''"
    and "CHR ''/'' \<notin> set name"
    and "name \<noteq> []"
  shows "OutputFileName opts = stem name @ ''_filtered'' @ extension name
         \<and> stem name @ extension name = name
         \<and> CHR ''/'' \<notin> set (OutputFileName opts)"
proof -
  have split: "stem name @ extension name = name"
    using assms(5) stem_extension [of name] by (simp add: filename_of_name)
  have out: "OutputFileName opts = stem name @ ''_filtered'' @ extension name"
    using assms by (simp add: OutputFileName_def stem_dir extension_dir)
  have "set (stem name) \<union> set (extension name) = set name"
    using split by (metis set_append)
  with assms(5) have "CHR ''/'' \<notin> set (stem name) \<and> CHR ''/'' \<notin> set (extension name)"
    by auto
  with split out show ?thesis by simp
qed

text \<open>C9, amended, at the input path \<^verbatim>\<open>build/t.table\<close>.\<close>

theorem OutputFileName_default_witness:
  "Output default_options = []
   \<and> InputFilename default_options = ''build/'' @ ''t.table''
   \<and> OutputFileName default_options = stem ''t.table'' @ ''_filtered'' @ extension ''t.table''
   \<and> stem ''t.table'' = ''t'' \<and> extension ''t.table'' = ''.table''
   \<and> CHR ''/'' \<notin> set (OutputFileName default_options)"
proof -
  have 1: "Output default_options = []" by (simp add: default_options_def)
  have 2: "InputFilename default_options = ''build/'' @ ''t.table''" by (simp add: default_options_def)
  have 3: "''build/'' = [] \<or> last ''build/'' = CHR ''/''" by simp
  have 4: "''build/'' \<noteq> ''//''" by simp
  have 5: "CHR ''/'' \<notin> set ''t.table''" by simp
  have 6: "''t.table'' \<noteq> []" by simp
  have "stem ''t.table'' = ''t''" "extension ''t.table'' = ''.table''"
    by (simp_all add: stem_def extension_def filename_def)
  with OutputFileName_default [OF 1 2 3 4 5 6] 1 2 show ?thesis by simp
qed

text \<open>
  C10 (the code differs). The claim: with a \<^verbatim>\<open>Properties\<close> column and readable property
  files, the output file holds the title line of the input and no row, whatever the
  property files declare. The code at the table whose one row names a readable property
  file that declares a fixed target: the loop of lines 82 to 104 never leaves that line,
  \<^verbatim>\<open>filterTable\<close> never returns, and no output file is written.
\<close>

theorem C10_declared_requirement_writes_nothing:
  "read (files_with fixed_target_props) (InputFilename run_options) = Some example_table
   \<and> ''Properties'' \<in> set (ColumnNames example_table)
   \<and> getCell example_table [''a.bc'', ''a.prop''] ''Properties'' = Inr ''a.prop''
   \<and> contents (files_with fixed_target_props) ''a.prop'' = Some fixed_target_props
   \<and> filterTable run_options (files_with fixed_target_props) example_table = None
   \<and> main run_options (files_with fixed_target_props) = None"
proof -
  have run: "main run_options (files_with fixed_target_props) = None"
  proof (rule main_files_with_stuck)
    show "contains fixed_target_props section_header"
      by code_simp
    show "find_header (line_iterator fixed_target_props) =
            Inr ((''[SYCL/device requirements]'', [LF] @ ''fixed_target|gpu'' @ [LF])
                 # [(''fixed_target|gpu'', [LF])])"
      by code_simp
    show "is_requirement_line (deref [(''fixed_target|gpu'', [LF])])"
      by (simp add: is_requirement_line_def)
    show "loop_body [(''fixed_target|gpu'', [LF])] = Inr [(''fixed_target|gpu'', [LF])]"
      by simp
  qed
  then have "filterTable run_options (files_with fixed_target_props) example_table = None"
    by (simp add: main_files_with)
  moreover have "read (files_with fixed_target_props) (InputFilename run_options) = Some example_table"
    using read_example_table by (simp add: read_def files_with_def files_of_def run_options_def)
  ultimately show ?thesis
    using run
    by (simp add: example_table_def getCell_def getColumnId_def files_with_def files_of_def)
qed

end
